theory Spec2Isabelle
  imports Main "HOL-Library.AList"
begin

section \<open>Python values\<close>

text \<open>
  The service handles JSON values as Python objects: \<open>request.get_json()\<close>,
  \<open>response.json()\<close> and \<open>json.loads\<close> all yield \<open>None\<close>, \<open>bool\<close>, \<open>int\<close>,
  \<open>float\<close>, \<open>str\<close>, \<open>list\<close> or \<open>dict\<close>. Python's \<open>None\<close> is \<open>JNull\<close>.

  A \<open>float\<close> is an IEEE double: \<open>Finite s m e\<close> is the value \<open>(-1)^s * m * 2^e\<close>.
  Every finite double has this form (with \<open>m < 2^53\<close>); the functions below do not use
  the bound, so what is proved for every \<open>Finite s m e\<close> holds for every finite double.

  A \<open>dict\<close> is the list of its items in insertion order. Strings are lists of 8-bit
  characters, read as the code points below 256.
\<close>

datatype pyfloat = Finite bool nat int | Inf bool | NaN

datatype json =
    JNull
  | JBool bool
  | JInt int
  | JFloat pyfloat
  | JStr string
  | JArr "json list"
  | JObj "(string \<times> json) list"

datatype pyerr = ValueError | TypeError | AttributeError | OverflowError | UnboundLocalError

text \<open>Truth value of an object, as \<open>not x\<close> and \<open>if x\<close> test it.\<close>

fun truthy :: "json \<Rightarrow> bool" where
  "truthy JNull = False"
| "truthy (JBool b) = b"
| "truthy (JInt n) = (n \<noteq> 0)"
| "truthy (JFloat (Finite s m e)) = (m \<noteq> 0)"
| "truthy (JFloat (Inf s)) = True"
| "truthy (JFloat NaN) = True"
| "truthy (JStr s) = (s \<noteq> [])"
| "truthy (JArr xs) = (xs \<noteq> [])"
| "truthy (JObj kvs) = (kvs \<noteq> [])"

text \<open>\<open>d.get(k)\<close>: the value stored under \<open>k\<close>, \<open>None\<close> when the key is absent.\<close>

definition dict_get :: "(string \<times> json) list \<Rightarrow> string \<Rightarrow> json" where
  "dict_get kvs k = (case map_of kvs k of None \<Rightarrow> JNull | Some v \<Rightarrow> v)"

text \<open>\<open>isinstance(x, (int, float))\<close>: \<open>bool\<close> is a subclass of \<open>int\<close>.\<close>

fun isinstance_int_float :: "json \<Rightarrow> bool" where
  "isinstance_int_float (JBool b) = True"
| "isinstance_int_float (JInt n) = True"
| "isinstance_int_float (JFloat f) = True"
| "isinstance_int_float v = False"

fun isinstance_str :: "json \<Rightarrow> bool" where
  "isinstance_str (JStr s) = True"
| "isinstance_str v = False"

section \<open>String helpers\<close>

text \<open>\<open>s.replace(old, new)\<close> for a one-character \<open>old\<close>.\<close>

definition replace_char :: "char \<Rightarrow> string \<Rightarrow> string \<Rightarrow> string" where
  "replace_char old new s = concat (map (\<lambda>c. if c = old then new else [c]) s)"

text \<open>\<open>sep.join(xs)\<close>.\<close>

fun join :: "string \<Rightarrow> string list \<Rightarrow> string" where
  "join sep [] = []"
| "join sep [x] = x"
| "join sep (x # y # ys) = x @ sep @ join sep (y # ys)"

definition digit_char :: "nat \<Rightarrow> char" where
  "digit_char d = ''0123456789'' ! d"

definition is_digit :: "char \<Rightarrow> bool" where
  "is_digit c = (c \<in> set ''0123456789'')"

text \<open>The decimal digits of a natural number, as \<open>str(n)\<close> writes them.\<close>

fun dec_str :: "nat \<Rightarrow> string" where
  "dec_str n = (if n < 10 then [digit_char n] else dec_str (n div 10) @ [digit_char (n mod 10)])"

declare dec_str.simps [simp del]

section \<open>Fixed-point formatting: the format spec \<open>.2f\<close>\<close>

text \<open>
  \<open>int.__format__\<close> with presentation type \<open>f\<close> converts the integer to a double first:
  the nearest double, ties to even, and \<open>OverflowError\<close> when the rounded value does
  not fit (\<open>2^1024\<close> or more).
\<close>

fun bit_length :: "nat \<Rightarrow> nat" where
  "bit_length n = (if n = 0 then 0 else Suc (bit_length (n div 2)))"

declare bit_length.simps [simp del]

definition round_half_even :: "nat \<Rightarrow> nat \<Rightarrow> nat" where
  "round_half_even n d =
     (let q = n div d; r = n mod d
      in if 2 * r > d \<or> (2 * r = d \<and> odd q) then q + 1 else q)"

definition int_to_float :: "int \<Rightarrow> pyerr + pyfloat" where
  "int_to_float n =
     (let a = nat \<bar>n\<bar>; k = bit_length a - 53; q = round_half_even a (2 ^ k)
      in if q * 2 ^ k \<ge> 2 ^ 1024 then Inl OverflowError
         else Inr (Finite (n < 0) q (int k)))"

text \<open>
  \<open>float.__format__\<close> with \<open>.2f\<close>: the exact value rounded to the nearest hundredth,
  ties to even, written with its sign, its integer digits, a point and two digits.
  Infinities and NaN are written as words.
\<close>

definition hundredths :: "nat \<Rightarrow> int \<Rightarrow> nat" where
  "hundredths m e =
     (if e \<ge> 0 then m * 2 ^ nat e * 100 else round_half_even (m * 100) (2 ^ nat (- e)))"

fun float_format_2f :: "pyfloat \<Rightarrow> string" where
  "float_format_2f (Finite s m e) =
     (let h = hundredths m e
      in (if s then ''-'' else '''') @ dec_str (h div 100) @ ''.'' @
         [digit_char (h mod 100 div 10), digit_char (h mod 10)])"
| "float_format_2f (Inf s) = (if s then ''-inf'' else ''inf'')"
| "float_format_2f NaN = ''nan''"

text \<open>
  \<open>f"{x:.2f}"\<close> on an arbitrary object: \<open>bool\<close> inherits \<open>int.__format__\<close>, \<open>str\<close>
  rejects the format code with \<open>ValueError\<close>, \<open>None\<close>, lists and dicts reject any
  non-empty format spec with \<open>TypeError\<close>.
\<close>

fun format_2f :: "json \<Rightarrow> pyerr + string" where
  "format_2f (JBool b) = map_sum id float_format_2f (int_to_float (if b then 1 else 0))"
| "format_2f (JInt n) = map_sum id float_format_2f (int_to_float n)"
| "format_2f (JFloat f) = Inr (float_format_2f f)"
| "format_2f (JStr s) = Inl ValueError"
| "format_2f v = Inl TypeError"

section \<open>\<open>app.py\<close>: \<open>generate_filename\<close>\<close>

text \<open>\<open>x.replace(old, new)\<close> on an arbitrary object: only \<open>str\<close> has the method.\<close>

fun str_replace :: "json \<Rightarrow> char \<Rightarrow> string \<Rightarrow> pyerr + string" where
  "str_replace (JStr s) old new = Inr (replace_char old new s)"
| "str_replace v old new = Inl AttributeError"

text \<open>\<open>f"{x:.2f}".replace('.', '_')\<close>, the text of a coordinate in the file name.\<close>

definition coord_str :: "json \<Rightarrow> pyerr + string" where
  "coord_str x = map_sum id (replace_char CHR ''.'' ''_'') (format_2f x)"

definition generate_filename :: "json \<Rightarrow> json \<Rightarrow> json \<Rightarrow> json \<Rightarrow> pyerr + string" where
  "generate_filename latitude longitude start_date_str end_date_str =
     (case str_replace start_date_str CHR ''-'' '''' of
        Inl e \<Rightarrow> Inl e
      | Inr start_date_fn \<Rightarrow>
         (case str_replace end_date_str CHR ''-'' '''' of
            Inl e \<Rightarrow> Inl e
          | Inr end_date_fn \<Rightarrow>
             (case coord_str latitude of
                Inl e \<Rightarrow> Inl e
              | Inr lat_str \<Rightarrow>
                 (case coord_str longitude of
                    Inl e \<Rightarrow> Inl e
                  | Inr lon_str \<Rightarrow>
                      Inr (''weather_lat'' @ lat_str @ ''_lon'' @ lon_str @
                           ''_from'' @ start_date_fn @ ''_to'' @ end_date_fn @
                           ''.json'')))))"

section \<open>\<open>app.py\<close>: \<open>validate_date_format\<close>\<close>

text \<open>
  \<open>datetime.strptime(s, '%Y-%m-%d')\<close> compiles the format to the regular expression
  \<^verbatim>\<open>(?P<Y>\d\d\d\d)-(?P<m>1[0-2]|0[1-9]|[1-9])-(?P<d>3[0-1]|[1-2]\d|0[1-9]|[1-9]| [1-9])\<close>,
  takes its first match at the start of the string, raises \<open>ValueError\<close> when there is
  none or when text remains after the match, converts the three groups with \<open>int\<close>, and
  raises \<open>ValueError\<close> again when they are not a date of the proleptic Gregorian calendar
  in the years 1 to 9999.

  A matcher lists every way its pattern matches a prefix of the input, the preferred way
  first, each as the text matched and the input that remains: the order in which a
  backtracking matcher tries them.
\<close>

type_synonym matcher = "string \<Rightarrow> (string \<times> string) list"

definition one_of :: "string \<Rightarrow> matcher" where
  "one_of cls s = (case s of [] \<Rightarrow> [] | c # cs \<Rightarrow> if c \<in> set cls then [([c], cs)] else [])"

definition then_m :: "matcher \<Rightarrow> matcher \<Rightarrow> matcher" where
  "then_m p q s = concat (map (\<lambda>(a, r). map (\<lambda>(b, r'). (a @ b, r')) (q r)) (p s))"

definition alt_m :: "matcher list \<Rightarrow> matcher" where
  "alt_m ps s = concat (map (\<lambda>p. p s) ps)"

definition re_digit :: matcher where
  "re_digit = one_of ''0123456789''"

definition re_Y :: matcher where
  "re_Y = then_m re_digit (then_m re_digit (then_m re_digit re_digit))"

definition re_m :: matcher where
  "re_m = alt_m [then_m (one_of ''1'') (one_of ''012''),
                 then_m (one_of ''0'') (one_of ''123456789''),
                 one_of ''123456789'']"

definition re_d :: matcher where
  "re_d = alt_m [then_m (one_of ''3'') (one_of ''01''),
                 then_m (one_of ''12'') re_digit,
                 then_m (one_of ''0'') (one_of ''123456789''),
                 one_of ''123456789'',
                 then_m (one_of '' '') (one_of ''123456789'')]"

definition format_regex_match :: "string \<Rightarrow> ((string \<times> string \<times> string) \<times> string) option" where
  "format_regex_match s =
     (case [((y, m, d), r5).
              (y, r1) \<leftarrow> re_Y s, (h1, r2) \<leftarrow> one_of ''-'' r1, (m, r3) \<leftarrow> re_m r2,
              (h2, r4) \<leftarrow> one_of ''-'' r3, (d, r5) \<leftarrow> re_d r4]
      of [] \<Rightarrow> None | found # others \<Rightarrow> Some found)"

text \<open>\<open>int(s)\<close> on a group of the match: digits, after a blank in the last form of the day.\<close>

definition digit_value :: "char \<Rightarrow> nat" where
  "digit_value c = of_char c - 48"

definition int_of_group :: "string \<Rightarrow> nat" where
  "int_of_group s = foldl (\<lambda>a c. 10 * a + digit_value c) 0 (dropWhile (\<lambda>c. c = CHR '' '') s)"

definition is_leap :: "nat \<Rightarrow> bool" where
  "is_leap y = (y mod 4 = 0 \<and> (y mod 100 \<noteq> 0 \<or> y mod 400 = 0))"

definition days_in_month :: "nat \<Rightarrow> nat \<Rightarrow> nat" where
  "days_in_month y m =
     (if m = 2 then (if is_leap y then 29 else 28)
      else if m = 4 \<or> m = 6 \<or> m = 9 \<or> m = 11 then 30 else 31)"

definition strptime_Ymd :: "string \<Rightarrow> pyerr + (nat \<times> nat \<times> nat)" where
  "strptime_Ymd s =
     (case format_regex_match s of
        None \<Rightarrow> Inl ValueError
      | Some ((y, m, d), rest) \<Rightarrow>
          if rest \<noteq> [] then Inl ValueError
          else if 1 \<le> int_of_group y \<and> int_of_group y \<le> 9999 \<and>
                  1 \<le> int_of_group m \<and> int_of_group m \<le> 12 \<and>
                  1 \<le> int_of_group d \<and>
                  int_of_group d \<le> days_in_month (int_of_group y) (int_of_group m)
          then Inr (int_of_group y, int_of_group m, int_of_group d)
          else Inl ValueError)"

text \<open>
  \<open>validate_date_format\<close> catches \<open>ValueError\<close> only; \<open>strptime\<close> raises \<open>TypeError\<close>
  when its argument is not a \<open>str\<close>.
\<close>

fun validate_date_format :: "json \<Rightarrow> pyerr + bool" where
  "validate_date_format (JStr s) =
     (case strptime_Ymd s of
        Inl e \<Rightarrow> if e = ValueError then Inr False else Inl e
      | Inr date \<Rightarrow> Inr True)"
| "validate_date_format v = Inl TypeError"

section \<open>The environment of a request\<close>

text \<open>
  What the HTTP library answers to the one request \<open>fetch_weather_data\<close> sends:
  \<open>requests.get\<close> raises \<open>Timeout\<close>, \<open>ConnectionError\<close> or another
  \<open>RequestException\<close>; \<open>raise_for_status\<close> raises \<open>HTTPError\<close>; \<open>response.json()\<close>
  raises when the body is not JSON, and otherwise returns the parsed body.
\<close>

datatype http_outcome =
    Timeout
  | ConnectionError
  | HTTPError nat
  | RequestException
  | BodyNotJson
  | BodyJson json

text \<open>
  The process environment and the libraries: the bucket name read at start-up
  (\<open>os.environ.get\<close>: \<open>None\<close> when unset), the answer of the weather provider to a
  query, and \<open>json.dumps(_, indent=2)\<close> and \<open>json.loads\<close> (\<open>None\<close> for
  \<open>JSONDecodeError\<close>).
\<close>

record env =
  GCS_BUCKET_NAME :: "string option"
  requests_get :: "json \<Rightarrow> json \<Rightarrow> json \<Rightarrow> json \<Rightarrow> http_outcome"
  json_dumps :: "json \<Rightarrow> string"
  json_loads :: "string \<Rightarrow> json option"

text \<open>
  The object store behind the storage SDK: whether the module-level client could be
  created, the exception (if any) the SDK raises on a call, and the text stored under
  each bucket and object name. A call that raises leaves the objects as they are; an
  upload that returns stores the text, replacing what was there.
\<close>

datatype gcs_exc = NotFound | Forbidden | OtherException

datatype gcs_op =
    UploadFromString string string
  | ListBlobs string "string option"
  | BlobExists string string
  | DownloadAsText string string

record gcs =
  storage_client :: bool
  sdk_raises :: "gcs_op \<Rightarrow> gcs_exc option"
  objects :: "((string \<times> string) \<times> string) list"

section \<open>\<open>open_meteo_client.py\<close>\<close>

text \<open>
  Every handler returns \<open>None\<close>, but the handler for \<open>Timeout\<close> first prints
  \<open>response.text\<close>, and \<open>response\<close> was never bound when \<open>requests.get\<close> raised:
  the handler itself raises \<open>UnboundLocalError\<close>.
\<close>

definition fetch_weather_data :: "env \<Rightarrow> json \<Rightarrow> json \<Rightarrow> json \<Rightarrow> json \<Rightarrow> pyerr + json" where
  "fetch_weather_data env latitude longitude start_date end_date =
     (case requests_get env latitude longitude start_date end_date of
        Timeout \<Rightarrow> Inl UnboundLocalError
      | ConnectionError \<Rightarrow> Inr JNull
      | HTTPError status \<Rightarrow> Inr JNull
      | RequestException \<Rightarrow> Inr JNull
      | BodyNotJson \<Rightarrow> Inr JNull
      | BodyJson weather_data \<Rightarrow> Inr weather_data)"

section \<open>\<open>gcs_client.py\<close>\<close>

definition upload_to_gcs :: "gcs \<Rightarrow> string \<Rightarrow> string \<Rightarrow> string \<Rightarrow> bool \<times> gcs" where
  "upload_to_gcs g bucket_name destination_blob_name data_json_string =
     (if \<not> storage_client g then (False, g)
      else (case sdk_raises g (UploadFromString bucket_name destination_blob_name) of
              None \<Rightarrow>
                (True, g\<lparr>objects := AList.update (bucket_name, destination_blob_name)
                                      data_json_string (objects g)\<rparr>)
            | Some NotFound \<Rightarrow> (False, g)
            | Some Forbidden \<Rightarrow> (False, g)
            | Some OtherException \<Rightarrow> (False, g)))"

definition list_gcs_files :: "gcs \<Rightarrow> string \<Rightarrow> string option \<Rightarrow> string list option" where
  "list_gcs_files g bucket_name prefix =
     (if \<not> storage_client g then None
      else (case sdk_raises g (ListBlobs bucket_name prefix) of
              None \<Rightarrow>
                Some [name. ((b, name), text) \<leftarrow> objects g, b = bucket_name,
                            (case prefix of None \<Rightarrow> True | Some p \<Rightarrow> take (length p) name = p)]
            | Some NotFound \<Rightarrow> None
            | Some Forbidden \<Rightarrow> None
            | Some OtherException \<Rightarrow> None))"

definition get_gcs_file_content :: "env \<Rightarrow> gcs \<Rightarrow> string \<Rightarrow> string \<Rightarrow> json" where
  "get_gcs_file_content env g bucket_name blob_name =
     (if \<not> storage_client g then JNull
      else (case sdk_raises g (BlobExists bucket_name blob_name) of
              Some exc \<Rightarrow> JNull
            | None \<Rightarrow>
               (case map_of (objects g) (bucket_name, blob_name) of
                  None \<Rightarrow> JNull
                | Some content_string \<Rightarrow>
                   (case sdk_raises g (DownloadAsText bucket_name blob_name) of
                      Some exc \<Rightarrow> JNull
                    | None \<Rightarrow>
                       (case json_loads env content_string of
                          None \<Rightarrow> JNull
                        | Some json_content \<Rightarrow> json_content)))))"

section \<open>\<open>app.py\<close>: the endpoints\<close>

text \<open>
  A handler returns a status with the object given to \<open>jsonify\<close>, or lets an exception
  escape. With it the model returns the calls the handler made to the two client
  modules, in order, and the object store after the request.
\<close>

datatype outcome = Response nat json | Unhandled pyerr

datatype call =
    FetchWeatherData json json json json
  | UploadToGcs string string string
  | ListGcsFiles string "string option"
  | GetGcsFileContent string string

text \<open>\<open>request.get_json()\<close> raises when the body is not JSON, and returns the parsed body.\<close>

datatype get_json_outcome = GetJsonRaises | GetJsonReturns json

definition error_body :: "string \<Rightarrow> json" where
  "error_body msg = JObj [(''error'', JStr msg)]"

definition server_misconfigured :: outcome where
  "server_misconfigured = Response 500 (error_body ''Server configuration error: GCS bucket not set.'')"

definition malformed_input :: outcome where
  "malformed_input = Response 400 (error_body ''Invalid request: Malformed JSON.'')"

definition no_json_payload :: outcome where
  "no_json_payload = Response 400 (error_body ''Invalid request: No JSON payload received.'')"

definition missing_parameters :: "string list \<Rightarrow> outcome" where
  "missing_parameters missing_params =
     Response 400 (error_body (''Missing parameters: '' @ join '', '' missing_params))"

definition invalid_type :: outcome where
  "invalid_type =
     Response 400 (error_body ''Invalid data type for latitude or longitude. Must be float or integer.'')"

definition invalid_date_format :: outcome where
  "invalid_date_format =
     Response 400 (error_body ''Invalid date format for start_date or end_date. Use YYYY-MM-DD.'')"

definition upstream_fetch_failed :: outcome where
  "upstream_fetch_failed = Response 502 (error_body ''Failed to fetch weather data from external API.'')"

definition storage_write_failed :: outcome where
  "storage_write_failed = Response 500 (error_body ''Failed to store weather data in GCS.'')"

definition storage_list_failed :: outcome where
  "storage_list_failed = Response 500 (error_body ''Failed to retrieve file list from GCS.'')"

definition missing_file_name :: outcome where
  "missing_file_name = Response 400 (error_body ''File name cannot be empty.'')"

definition file_not_found_or_unparseable :: "string \<Rightarrow> outcome" where
  "file_not_found_or_unparseable file_name =
     Response 404 (error_body (''File '' @ [CHR 0x27] @ file_name @ [CHR 0x27] @
                               '' not found or unable to retrieve/parse content.''))"

definition stored_successfully :: "string \<Rightarrow> string \<Rightarrow> outcome" where
  "stored_successfully bucket file_name =
     Response 201 (JObj [(''message'', JStr ''Weather data fetched and stored successfully.''),
                         (''file_name'', JStr file_name),
                         (''gcs_path'', JStr (''gs://'' @ bucket @ ''/'' @ file_name))])"

definition index :: outcome where
  "index = Response 200 (JObj [(''message'', JStr ''Welcome to the Weather Data Service API!'')])"

text \<open>The keys of \<open>required_params\<close> whose value is \<open>None\<close>, in the order of the dict.\<close>

definition missing_params_of :: "json \<Rightarrow> json \<Rightarrow> json \<Rightarrow> json \<Rightarrow> string list" where
  "missing_params_of latitude longitude start_date end_date =
     map fst (filter (\<lambda>(key, val). val = JNull)
       [(''latitude'', latitude), (''longitude'', longitude),
        (''start_date'', start_date), (''end_date'', end_date)])"

text \<open>The handler from the fetch on, for parameters that passed the checks.\<close>

definition fetch_and_store ::
  "env \<Rightarrow> gcs \<Rightarrow> string \<Rightarrow> json \<Rightarrow> json \<Rightarrow> json \<Rightarrow> json \<Rightarrow> outcome \<times> call list \<times> gcs" where
  "fetch_and_store env g bucket latitude longitude start_date end_date =
     (case fetch_weather_data env latitude longitude start_date end_date of
        Inl e \<Rightarrow> (Unhandled e, [FetchWeatherData latitude longitude start_date end_date], g)
      | Inr weather_api_data \<Rightarrow>
          if weather_api_data = JNull
          then (upstream_fetch_failed,
                [FetchWeatherData latitude longitude start_date end_date], g)
          else (case generate_filename latitude longitude start_date end_date of
                  Inl e \<Rightarrow>
                    (Unhandled e, [FetchWeatherData latitude longitude start_date end_date], g)
                | Inr file_name \<Rightarrow>
                   (case upload_to_gcs g bucket file_name (json_dumps env weather_api_data) of
                      (ok, g') \<Rightarrow>
                        (if ok then stored_successfully bucket file_name
                         else storage_write_failed,
                         [FetchWeatherData latitude longitude start_date end_date,
                          UploadToGcs bucket file_name (json_dumps env weather_api_data)],
                         g'))))"

text \<open>The handler from the extraction of the parameters on; only a dict has \<open>get\<close>.\<close>

definition store_request ::
  "env \<Rightarrow> gcs \<Rightarrow> string \<Rightarrow> json \<Rightarrow> outcome \<times> call list \<times> gcs" where
  "store_request env g bucket req_data =
     (case req_data of
        JObj items \<Rightarrow>
          (let latitude = dict_get items ''latitude'';
               longitude = dict_get items ''longitude'';
               start_date = dict_get items ''start_date'';
               end_date = dict_get items ''end_date'';
               missing_params = missing_params_of latitude longitude start_date end_date
           in if missing_params \<noteq> [] then (missing_parameters missing_params, [], g)
              else if \<not> (isinstance_int_float latitude \<and> isinstance_int_float longitude)
              then (invalid_type, [], g)
              else if \<not> (isinstance_str start_date \<and> validate_date_format start_date = Inr True \<and>
                          isinstance_str end_date \<and> validate_date_format end_date = Inr True)
              then (invalid_date_format, [], g)
              else fetch_and_store env g bucket latitude longitude start_date end_date)
      | JNull \<Rightarrow> (Unhandled AttributeError, [], g)
      | JBool b \<Rightarrow> (Unhandled AttributeError, [], g)
      | JInt n \<Rightarrow> (Unhandled AttributeError, [], g)
      | JFloat f \<Rightarrow> (Unhandled AttributeError, [], g)
      | JStr s \<Rightarrow> (Unhandled AttributeError, [], g)
      | JArr xs \<Rightarrow> (Unhandled AttributeError, [], g))"

definition store_weather_data_endpoint ::
  "env \<Rightarrow> gcs \<Rightarrow> get_json_outcome \<Rightarrow> outcome \<times> call list \<times> gcs" where
  "store_weather_data_endpoint env g request_json =
     (case GCS_BUCKET_NAME env of
        None \<Rightarrow> (server_misconfigured, [], g)
      | Some bucket \<Rightarrow>
          if bucket = [] then (server_misconfigured, [], g)
          else (case request_json of
                  GetJsonRaises \<Rightarrow> (malformed_input, [], g)
                | GetJsonReturns req_data \<Rightarrow>
                    if \<not> truthy req_data then (no_json_payload, [], g)
                    else store_request env g bucket req_data))"

definition list_weather_files_endpoint :: "env \<Rightarrow> gcs \<Rightarrow> outcome \<times> call list \<times> gcs" where
  "list_weather_files_endpoint env g =
     (case GCS_BUCKET_NAME env of
        None \<Rightarrow> (server_misconfigured, [], g)
      | Some bucket \<Rightarrow>
          if bucket = [] then (server_misconfigured, [], g)
          else (case list_gcs_files g bucket (Some ''weather_'') of
                  None \<Rightarrow> (storage_list_failed, [ListGcsFiles bucket (Some ''weather_'')], g)
                | Some files \<Rightarrow>
                    (Response 200 (JObj [(''files'', JArr (map JStr files)),
                                         (''bucket'', JStr bucket)]),
                     [ListGcsFiles bucket (Some ''weather_'')], g)))"

definition weather_file_content_endpoint ::
  "env \<Rightarrow> gcs \<Rightarrow> string \<Rightarrow> outcome \<times> call list \<times> gcs" where
  "weather_file_content_endpoint env g file_name =
     (case GCS_BUCKET_NAME env of
        None \<Rightarrow> (server_misconfigured, [], g)
      | Some bucket \<Rightarrow>
          if bucket = [] then (server_misconfigured, [], g)
          else if file_name = [] then (missing_file_name, [], g)
          else if get_gcs_file_content env g bucket file_name = JNull
          then (file_not_found_or_unparseable file_name,
                [GetGcsFileContent bucket file_name], g)
          else (Response 200 (get_gcs_file_content env g bucket file_name),
                [GetGcsFileContent bucket file_name], g))"

section \<open>Vocabulary of the properties\<close>

text \<open>\<open>not GCS_BUCKET_NAME\<close> is false: the variable is set, and not to the empty string.\<close>

definition bucket_configured :: "env \<Rightarrow> bool" where
  "bucket_configured env = (case GCS_BUCKET_NAME env of None \<Rightarrow> False | Some b \<Rightarrow> b \<noteq> [])"

fun status_of :: "outcome \<Rightarrow> nat option" where
  "status_of (Response st body) = Some st"
| "status_of (Unhandled e) = None"

fun is_object :: "json \<Rightarrow> bool" where
  "is_object (JObj items) = True"
| "is_object v = False"

text \<open>
  A sample environment for concrete runs: a provider that answers every query with one
  day of data, a JSON library given on the two values and two strings the runs use
  (that record, with what \<open>json.dumps(_, indent=2)\<close> writes for it, and \<open>None\<close>), and a
  healthy, empty object store.
\<close>

definition sample_record :: json where
  "sample_record = JObj [(''daily'', JObj [(''time'', JArr [JStr ''2023-03-01''])])]"

definition sample_text :: string where
  "sample_text =
     ''{'' @ [CHR 0x0A] @
     ''  \"daily\": {'' @ [CHR 0x0A] @
     ''    \"time\": ['' @ [CHR 0x0A] @
     ''      \"2023-03-01\"'' @ [CHR 0x0A] @
     ''    ]'' @ [CHR 0x0A] @
     ''  }'' @ [CHR 0x0A] @
     ''}''"

definition sample_env :: env where
  "sample_env =
     \<lparr>GCS_BUCKET_NAME = Some ''weather-bucket'',
      requests_get = (\<lambda>latitude longitude start_date end_date. BodyJson sample_record),
      json_dumps = (\<lambda>v. if v = sample_record then sample_text else ''null''),
      json_loads = (\<lambda>s. if s = sample_text then Some sample_record
                         else if s = ''null'' then Some JNull else None)\<rparr>"

definition sample_gcs :: gcs where
  "sample_gcs = \<lparr>storage_client = True, sdk_raises = (\<lambda>op. None), objects = []\<rparr>"

text \<open>A request body that passes every check of the handler.\<close>

definition passes_validation :: "(string \<times> json) list \<Rightarrow> bool" where
  "passes_validation items =
     (isinstance_int_float (dict_get items ''latitude'') \<and>
      isinstance_int_float (dict_get items ''longitude'') \<and>
      validate_date_format (dict_get items ''start_date'') = Inr True \<and>
      validate_date_format (dict_get items ''end_date'') = Inr True)"

fun is_upload :: "call \<Rightarrow> bool" where
  "is_upload (UploadToGcs b k d) = True"
| "is_upload c = False"


text \<open>
  The text of a coordinate "formatted to exactly 2 decimal places, with the decimal point
  replaced by an underscore": an optional sign, one digit or more, an underscore, two digits.
\<close>

definition two_decimal_places :: "string \<Rightarrow> bool" where
  "two_decimal_places s =
     (let u = (if take 1 s = ''-'' then drop 1 s else s); k = length u - 3
      in 4 \<le> length u \<and> list_all is_digit (take k u) \<and> u ! k = CHR ''_'' \<and>
         is_digit (u ! (k + 1)) \<and> is_digit (u ! (k + 2)))"

text \<open>
  The numbers that have a fixed-point text: booleans, the integers that convert to a
  double, and the finite doubles.
\<close>

fun finite_number :: "json \<Rightarrow> bool" where
  "finite_number (JBool b) = True"
| "finite_number (JInt n) = (case int_to_float n of Inl e \<Rightarrow> False | Inr f \<Rightarrow> True)"
| "finite_number (JFloat (Finite s m e)) = True"
| "finite_number v = False"

text \<open>
  The date pattern in the words of the specification: \<open>YYYY-MM-DD\<close> with a four-digit
  year, a zero-padded two-digit month and day, and a real calendar date.
\<close>

definition zero_padded_date :: "string \<Rightarrow> bool" where
  "zero_padded_date s =
     (length s = 10 \<and> list_all is_digit (take 4 s) \<and> s ! 4 = CHR ''-'' \<and>
      list_all is_digit (take 2 (drop 5 s)) \<and> s ! 7 = CHR ''-'' \<and>
      list_all is_digit (drop 8 s) \<and>
      1 \<le> int_of_group (take 4 s) \<and>
      1 \<le> int_of_group (take 2 (drop 5 s)) \<and> int_of_group (take 2 (drop 5 s)) \<le> 12 \<and>
      1 \<le> int_of_group (drop 8 s) \<and>
      int_of_group (drop 8 s) \<le>
        days_in_month (int_of_group (take 4 s)) (int_of_group (take 2 (drop 5 s))))"

text \<open>
  The doubles nearest to 52.52, 13.41 and 13.4
  (\<open>0x1.a428f5c28f5c3p+5\<close>, \<open>0x1.ad1eb851eb852p+3\<close>, \<open>0x1.acccccccccccdp+3\<close>),
  and the request of the specification's example.
\<close>

definition float_52_52 :: json where
  "float_52_52 = JFloat (Finite False 7391532888421827 (- 47))"

definition float_13_41 :: json where
  "float_13_41 = JFloat (Finite False 3774579437689897 (- 48))"

definition float_13_4 :: json where
  "float_13_4 = JFloat (Finite False 7543529375845581 (- 49))"

definition sample_request :: "(string \<times> json) list" where
  "sample_request =
     [(''latitude'', float_52_52), (''longitude'', float_13_41),
      (''start_date'', JStr ''2023-03-01''), (''end_date'', JStr ''2023-03-03'')]"

section \<open>Properties\<close>

lemmas outcome_defs = server_misconfigured_def malformed_input_def no_json_payload_def
  missing_parameters_def invalid_type_def invalid_date_format_def upstream_fetch_failed_def
  storage_write_failed_def storage_list_failed_def missing_file_name_def
  file_not_found_or_unparseable_def stored_successfully_def error_body_def

subsection \<open>The empty JSON object\<close>

text \<open>
  Claim C1 expects a POST to \<open>/store-weather-data\<close> with the body \<open>{}\<close> to be answered
  400 with the list of the four missing parameters. The handler tests \<open>not req_data\<close>
  before it extracts anything, and the empty dict is false: the answer is 400 with
  "No JSON payload received", and differs from the list of missing parameters.
\<close>

theorem empty_object_is_no_payload:
  "store_weather_data_endpoint (env\<lparr>GCS_BUCKET_NAME := Some ''weather-bucket''\<rparr>) g
       (GetJsonReturns (JObj []))
     = (no_json_payload, [], g)
   \<and> no_json_payload \<noteq>
       missing_parameters [''latitude'', ''longitude'', ''start_date'', ''end_date'']"
  by (simp add: store_weather_data_endpoint_def outcome_defs)

text \<open>
  A body with any other key takes the path the claim describes: all four names are listed.
\<close>

lemma unrelated_key_lists_all_four:
  "store_weather_data_endpoint (env\<lparr>GCS_BUCKET_NAME := Some ''weather-bucket''\<rparr>) g
       (GetJsonReturns (JObj [(''note'', JStr ''x'')]))
     = (missing_parameters [''latitude'', ''longitude'', ''start_date'', ''end_date''], [], g)"
  by (simp add: store_weather_data_endpoint_def store_request_def dict_get_def
      missing_params_of_def)

lemma missing_parameters_message:
  "missing_parameters [''latitude'', ''longitude'', ''start_date'', ''end_date''] =
     Response 400 (JObj [(''error'',
       JStr ''Missing parameters: latitude, longitude, start_date, end_date'')])"
  by (simp add: missing_parameters_def error_body_def)

subsection \<open>The bucket gate\<close>

text \<open>
  Claim C5: when the bucket name is unset (or empty), each of the three operations
  other than the health check answers 500 "Server configuration error", calls neither
  client module and leaves the object store as it was.
\<close>

theorem unset_bucket_fails_fast:
  assumes "\<not> bucket_configured env"
  shows "store_weather_data_endpoint env g request_json = (server_misconfigured, [], g)
       \<and> list_weather_files_endpoint env g = (server_misconfigured, [], g)
       \<and> weather_file_content_endpoint env g file_name = (server_misconfigured, [], g)
       \<and> status_of server_misconfigured = Some 500"
  using assms
  by (auto simp: bucket_configured_def store_weather_data_endpoint_def
      list_weather_files_endpoint_def weather_file_content_endpoint_def server_misconfigured_def
      split: option.splits)

theorem unset_bucket_fails_fast_witness:
  "\<not> bucket_configured (sample_env\<lparr>GCS_BUCKET_NAME := None\<rparr>)
   \<and> store_weather_data_endpoint (sample_env\<lparr>GCS_BUCKET_NAME := None\<rparr>) sample_gcs
        (GetJsonReturns (JObj [])) = (server_misconfigured, [], sample_gcs)
   \<and> list_weather_files_endpoint (sample_env\<lparr>GCS_BUCKET_NAME := None\<rparr>) sample_gcs
        = (server_misconfigured, [], sample_gcs)
   \<and> weather_file_content_endpoint (sample_env\<lparr>GCS_BUCKET_NAME := None\<rparr>) sample_gcs ''x.json''
        = (server_misconfigured, [], sample_gcs)"
  using unset_bucket_fails_fast [of "sample_env\<lparr>GCS_BUCKET_NAME := None\<rparr>" sample_gcs
      "GetJsonReturns (JObj [])" "''x.json''"]
  by (simp add: bucket_configured_def)

subsection \<open>Bodies that are not objects\<close>

text \<open>
  Claim C10: a body that parses to a true value other than a dict (a non-empty list or
  string, a non-zero number, \<open>true\<close>) passes the payload check, and the extraction
  \<open>req_data.get\<close> raises \<open>AttributeError\<close>, which nothing handles; whatever the
  configuration, the answer is none of the 400 responses.
\<close>

theorem non_object_body_raises:
  assumes "truthy v" and "\<not> is_object v"
  shows "(bucket_configured env \<longrightarrow>
           store_weather_data_endpoint env g (GetJsonReturns v) = (Unhandled AttributeError, [], g))
       \<and> status_of (fst (store_weather_data_endpoint env g (GetJsonReturns v))) \<noteq> Some 400"
  using assms
  by (cases v) (auto simp: bucket_configured_def store_weather_data_endpoint_def store_request_def
      server_misconfigured_def split: option.splits)

theorem non_object_body_raises_witness:
  "truthy (JArr [JInt 1]) \<and> \<not> is_object (JArr [JInt 1]) \<and> bucket_configured sample_env
   \<and> store_weather_data_endpoint sample_env sample_gcs (GetJsonReturns (JArr [JInt 1]))
       = (Unhandled AttributeError, [], sample_gcs)"
  using non_object_body_raises [of "JArr [JInt 1]" sample_env sample_gcs]
  by (simp add: bucket_configured_def sample_env_def)

subsection \<open>Evaluation rules\<close>

text \<open>
  The recursive equations of \<open>bit_length\<close> and \<open>dec_str\<close> as conditional rules, which
  evaluate a numeral and leave a variable alone.
\<close>

lemma bit_length_0: "bit_length 0 = 0"
  by (subst bit_length.simps) simp

lemma bit_length_pos: "0 < n \<Longrightarrow> bit_length n = Suc (bit_length (n div 2))"
  by (subst bit_length.simps) simp

lemma dec_str_small: "n < 10 \<Longrightarrow> dec_str n = [digit_char n]"
  by (subst dec_str.simps) simp

lemma dec_str_large: "10 \<le> n \<Longrightarrow> dec_str n = dec_str (n div 10) @ [digit_char (n mod 10)]"
  by (subst dec_str.simps) simp

lemmas eval_defs = bit_length_0 bit_length_pos dec_str_small dec_str_large digit_char_def
  int_to_float_def round_half_even_def hundredths_def replace_char_def coord_str_def Let_def

lemmas re_defs = format_regex_match_def re_Y_def re_m_def re_d_def re_digit_def then_m_def
  alt_m_def one_of_def

lemmas date_defs = strptime_Ymd_def int_of_group_def digit_value_def days_in_month_def
  is_leap_def

lemmas sample_defs = sample_request_def float_52_52_def float_13_41_def float_13_4_def
  dict_get_def

subsection \<open>Integers as doubles\<close>

lemma bit_length_le: "a < 2 ^ j \<Longrightarrow> bit_length a \<le> j"
proof (induction j arbitrary: a)
  case 0
  then show ?case by (simp add: bit_length_0)
next
  case (Suc j)
  show ?case
  proof (cases "a = 0")
    case True
    then show ?thesis by (simp add: bit_length_0)
  next
    case False
    have "a div 2 < 2 ^ j" using Suc.prems by simp
    then have "bit_length (a div 2) \<le> j" by (rule Suc.IH)
    then show ?thesis using False by (simp add: bit_length_pos)
  qed
qed

lemma bit_length_lower: "0 < a \<Longrightarrow> 2 ^ (bit_length a - 1) \<le> a"
proof (induction a rule: bit_length.induct)
  case (1 n)
  show ?case
  proof (cases "n div 2 = 0")
    case True
    then show ?thesis using "1.prems" by (simp add: bit_length_pos bit_length_0)
  next
    case False
    then have pos: "0 < n div 2" by simp
    have "2 ^ (bit_length (n div 2) - 1) \<le> n div 2"
      using "1.IH" "1.prems" pos by simp
    then have "2 * 2 ^ (bit_length (n div 2) - 1) \<le> n" by simp
    moreover have "bit_length (n div 2) > 0" using pos by (simp add: bit_length_pos)
    ultimately show ?thesis using "1.prems"
      by (simp add: bit_length_pos) (metis Suc_pred power_Suc)
  qed
qed

lemma round_half_even_ge: "n div d \<le> round_half_even n d"
  by (simp add: round_half_even_def Let_def)

lemma round_half_even_exact: "round_half_even n (Suc 0) = n"
  by (simp add: round_half_even_def Let_def)

text \<open>The rounded quotient is within half a unit of the exact one.\<close>

lemma round_half_even_nearest:
  assumes "0 < d"
  shows "2 * n \<le> 2 * round_half_even n d * d + d \<and> 2 * round_half_even n d * d \<le> 2 * n + d"
proof -
  define q where "q = n div d"
  define r where "r = n mod d"
  have n: "n = q * d + r" and r: "r < d" using assms by (simp_all add: q_def r_def)
  show ?thesis
    unfolding round_half_even_def Let_def q_def [symmetric] r_def [symmetric]
    using r by (auto simp: n algebra_simps)
qed

text \<open>An integer below \<open>2^53\<close> in magnitude is a double as it is.\<close>

lemma int_to_float_exact:
  assumes "\<bar>n\<bar> < 2 ^ 53"
  shows "int_to_float n = Inr (Finite (n < 0) (nat \<bar>n\<bar>) 0)"
proof -
  have small: "nat \<bar>n\<bar> < 2 ^ 53" using assms by (simp add: nat_less_iff)
  then have k: "bit_length (nat \<bar>n\<bar>) - 53 = 0"
    using bit_length_le [of "nat \<bar>n\<bar>" 53] by simp
  have "nat \<bar>n\<bar> < (2::nat) ^ 1024"
    using small power_strict_increasing [of 53 1024 "2::nat"] by simp
  then show ?thesis
    unfolding int_to_float_def Let_def k by (simp add: round_half_even_exact)
qed

text \<open>An integer of magnitude \<open>2^1024\<close> or more has no double: \<open>OverflowError\<close>.\<close>

lemma int_to_float_overflow:
  assumes "2 ^ 1024 \<le> \<bar>n\<bar>"
  shows "int_to_float n = Inl OverflowError"
proof -
  define a where "a = nat \<bar>n\<bar>"
  define k where "k = bit_length a - 53"
  have a: "(2::nat) ^ 1024 \<le> a" using assms by (simp add: a_def le_nat_iff)
  have "a div 2 ^ k * 2 ^ k \<ge> 2 ^ 1024"
  proof (cases "k \<le> 1024")
    case True
    have "(2::nat) ^ 1024 = 2 ^ (1024 - k) * 2 ^ k"
      using True by (simp add: power_add [symmetric])
    moreover have "(2::nat) ^ (1024 - k) \<le> a div 2 ^ k"
    proof -
      have "(2::nat) ^ 1024 div 2 ^ k \<le> a div 2 ^ k" using a by (rule div_le_mono)
      moreover have "(2::nat) ^ 1024 div 2 ^ k = 2 ^ (1024 - k)"
        using True by (simp add: power_diff)
      ultimately show ?thesis by simp
    qed
    ultimately show ?thesis by (metis mult_le_mono1)
  next
    case False
    have "0 < a" using a by (cases "a = 0") auto
    then have "2 ^ (bit_length a - 1) \<le> a" by (rule bit_length_lower)
    moreover have "k \<le> bit_length a - 1" by (simp add: k_def)
    ultimately have "2 ^ k \<le> a"
      by (meson le_trans one_le_numeral power_increasing)
    then have "1 \<le> a div 2 ^ k" by (simp add: div_greater_zero_iff Suc_leI)
    then have "(2::nat) ^ k \<le> a div 2 ^ k * 2 ^ k" by simp
    moreover have "(2::nat) ^ 1024 \<le> 2 ^ k" using False by (intro power_increasing) auto
    ultimately show ?thesis by linarith
  qed
  moreover have "a div 2 ^ k * 2 ^ k \<le> round_half_even a (2 ^ k) * 2 ^ k"
    by (intro mult_le_mono1 round_half_even_ge)
  ultimately have "2 ^ 1024 \<le> round_half_even a (2 ^ k) * 2 ^ k" by (rule le_trans)
  then show ?thesis
    unfolding int_to_float_def Let_def a_def [symmetric] k_def [symmetric] by simp
qed

lemma int_to_float_finite: "int_to_float n = Inr f \<Longrightarrow> \<exists>s m e. f = Finite s m e"
  by (auto simp: int_to_float_def Let_def split: if_splits)

lemma bool_to_float: "int_to_float (if b then 1 else 0) = Inr (Finite False (if b then 1 else 0) 0)"
  by (cases b) (simp_all add: eval_defs)

subsection \<open>The text of a coordinate\<close>

lemma digit_char_is_digit: "d < 10 \<Longrightarrow> is_digit (digit_char d)"
proof -
  assume "d < 10"
  then have "d \<in> {0, 1, 2, 3, 4, 5, 6, 7, 8, 9}" by auto
  then show ?thesis by (auto simp: is_digit_def digit_char_def)
qed

lemma dec_str_digits: "list_all is_digit (dec_str n)"
  by (induction n rule: dec_str.induct) (subst dec_str.simps, simp add: digit_char_is_digit)

lemma dec_str_nonempty: "dec_str n \<noteq> []"
  by (subst dec_str.simps) simp

lemma replace_char_append: "replace_char c r (a @ b) = replace_char c r a @ replace_char c r b"
  by (simp add: replace_char_def)

lemma replace_char_absent: "c \<notin> set s \<Longrightarrow> replace_char c r s = s"
  by (induction s) (auto simp: replace_char_def)

lemma replace_char_remove: "replace_char c [] s = filter (\<lambda>x. x \<noteq> c) s"
  by (induction s) (auto simp: replace_char_def)

lemma dot_not_digit: "list_all is_digit s \<Longrightarrow> CHR ''.'' \<notin> set s"
proof -
  have "\<not> is_digit CHR ''.''" by (simp add: is_digit_def)
  then show "list_all is_digit s \<Longrightarrow> CHR ''.'' \<notin> set s"
    unfolding list_all_iff by blast
qed

text \<open>
  The coordinate text of a finite double: its sign, the digits of the whole part of the
  hundredths, an underscore, and the two digits of the rest.
\<close>

lemma float_coord:
  "replace_char CHR ''.'' ''_'' (float_format_2f (Finite s m e)) =
     (if s then ''-'' else '''') @ dec_str (hundredths m e div 100) @ ''_'' @
       [digit_char (hundredths m e mod 100 div 10), digit_char (hundredths m e mod 10)]"
proof -
  have a: "replace_char CHR ''.'' ''_'' (dec_str k) = dec_str k" for k
    by (rule replace_char_absent) (rule dot_not_digit, rule dec_str_digits)
  have b: "replace_char CHR ''.'' ''_'' [digit_char i, digit_char j] = [digit_char i, digit_char j]"
    if "i < 10" "j < 10" for i j
    using that digit_char_is_digit [of i] digit_char_is_digit [of j]
    by (intro replace_char_absent dot_not_digit) simp
  have c: "replace_char CHR ''.'' ''_'' ''.'' = ''_''" "replace_char CHR ''.'' ''_'' ''-'' = ''-''"
     "replace_char CHR ''.'' ''_'' [] = []"
    by (simp_all add: replace_char_def)
  show ?thesis
    by (simp add: Let_def replace_char_append a c del: append.simps)
       (use b [of "hundredths m e mod 100 div 10" "hundredths m e mod 10"] in \<open>simp add: replace_char_def\<close>)
qed

lemma two_decimal_shape:
  assumes "list_all is_digit ds" "ds \<noteq> []" "is_digit a" "is_digit b"
  shows "two_decimal_places ((if s then ''-'' else '''') @ ds @ ''_'' @ [a, b])"
proof -
  obtain d ds' where ds: "ds = d # ds'" using assms(2) by (cases ds) auto
  have "d \<noteq> CHR ''-''" using assms(1) ds by (auto simp: is_digit_def)
  then show ?thesis
    using assms by (auto simp: two_decimal_places_def Let_def ds nth_append)
qed

lemma two_decimal_float:
  "two_decimal_places (replace_char CHR ''.'' ''_'' (float_format_2f (Finite s m e)))"
  unfolding float_coord
  by (rule two_decimal_shape) (simp_all add: dec_str_digits dec_str_nonempty digit_char_is_digit)

lemma finite_number_coord:
  assumes "finite_number x"
  shows "\<exists>str. coord_str x = Inr str \<and> two_decimal_places str"
proof (cases x)
  case (JBool b)
  then show ?thesis
    by (simp add: coord_str_def bool_to_float two_decimal_float del: float_format_2f.simps)
next
  case (JInt n)
  then obtain f where f: "int_to_float n = Inr f" using assms by (auto split: sum.splits)
  then obtain s m e where "f = Finite s m e" using int_to_float_finite by blast
  then show ?thesis
    using f JInt by (simp add: coord_str_def two_decimal_float del: float_format_2f.simps)
next
  case (JFloat f)
  then obtain s m e where "f = Finite s m e" using assms by (cases f) auto
  then show ?thesis
    using JFloat by (simp add: coord_str_def two_decimal_float del: float_format_2f.simps)
qed (use assms in auto)

lemma coord_bool: "coord_str (JBool b) = Inr (if b then ''1_00'' else ''0_00'')"
  by (cases b) (simp_all add: eval_defs)

lemma coord_examples:
  "coord_str float_52_52 = Inr ''52_52''"
  "coord_str float_13_41 = Inr ''13_41''"
  "coord_str float_13_4 = Inr ''13_40''"
  "coord_str (JInt (- 7)) = Inr ''-7_00''"
  "coord_str (JInt (2 ^ 53 + 1)) = Inr ''9007199254740992_00''"
  "coord_str (JFloat (Finite False 1 (- 3))) = Inr ''0_12''"
  "coord_str (JFloat (Finite True 1 (- 10))) = Inr ''-0_00''"
  by (simp_all add: eval_defs sample_defs)

lemma coord_not_finite:
  "coord_str (JFloat (Inf False)) = Inr ''inf''"
  "coord_str (JFloat (Inf True)) = Inr ''-inf''"
  "coord_str (JFloat NaN) = Inr ''nan''"
  "coord_str (JInt (2 ^ 1024)) = Inl OverflowError"
  by (simp_all add: coord_str_def replace_char_def int_to_float_overflow)

subsection \<open>The storage key\<close>

text \<open>
  Claim C3, as amended: for every latitude and longitude that is a boolean, an integer
  that converts to a double, or a finite double, and for all date strings, the file name
  is \<open>weather_lat{LAT}_lon{LON}_from{START}_to{END}.json\<close>, where \<open>LAT\<close> and \<open>LON\<close> are
  the coordinates written with exactly two decimals and an underscore for the point, and
  \<open>START\<close> and \<open>END\<close> are the dates without their hyphens; for 52.52, 13.41,
  "2023-03-01" and "2023-03-03" it is
  \<open>weather_lat52_52_lon13_41_from20230301_to20230303.json\<close>.
\<close>

theorem generate_filename_two_decimals:
  assumes "finite_number latitude" and "finite_number longitude"
  shows "(\<exists>lat_str lon_str.
            coord_str latitude = Inr lat_str \<and> two_decimal_places lat_str \<and>
            coord_str longitude = Inr lon_str \<and> two_decimal_places lon_str \<and>
            generate_filename latitude longitude (JStr start_date) (JStr end_date) =
              Inr (''weather_lat'' @ lat_str @ ''_lon'' @ lon_str @
                   ''_from'' @ filter (\<lambda>c. c \<noteq> CHR ''-'') start_date @
                   ''_to'' @ filter (\<lambda>c. c \<noteq> CHR ''-'') end_date @ ''.json''))
       \<and> generate_filename float_52_52 float_13_41 (JStr ''2023-03-01'') (JStr ''2023-03-03'') =
           Inr ''weather_lat52_52_lon13_41_from20230301_to20230303.json''"
proof -
  obtain lat_str where lat: "coord_str latitude = Inr lat_str" "two_decimal_places lat_str"
    using finite_number_coord [OF assms(1)] by blast
  obtain lon_str where lon: "coord_str longitude = Inr lon_str" "two_decimal_places lon_str"
    using finite_number_coord [OF assms(2)] by blast
  have "generate_filename latitude longitude (JStr start_date) (JStr end_date) =
      Inr (''weather_lat'' @ lat_str @ ''_lon'' @ lon_str @
           ''_from'' @ filter (\<lambda>c. c \<noteq> CHR ''-'') start_date @
           ''_to'' @ filter (\<lambda>c. c \<noteq> CHR ''-'') end_date @ ''.json'')"
    by (simp add: generate_filename_def lat lon replace_char_remove)
  moreover have "generate_filename float_52_52 float_13_41 (JStr ''2023-03-01'') (JStr ''2023-03-03'') =
      Inr ''weather_lat52_52_lon13_41_from20230301_to20230303.json''"
    by (simp add: generate_filename_def coord_examples replace_char_remove)
  ultimately show ?thesis using lat lon by blast
qed

theorem generate_filename_two_decimals_witness:
  "finite_number float_13_4 \<and> finite_number (JInt (- 7))
   \<and> two_decimal_places ''13_40'' \<and> two_decimal_places ''-7_00''
   \<and> generate_filename float_13_4 (JInt (- 7)) (JStr ''2023-03-01'') (JStr ''2023-03-03'') =
       Inr ''weather_lat13_40_lon-7_00_from20230301_to20230303.json''"
proof -
  have a: "finite_number float_13_4" by (simp add: float_13_4_def)
  have b: "finite_number (JInt (- 7))" by (simp add: int_to_float_exact)
  from generate_filename_two_decimals [OF a b, of "''2023-03-01''" "''2023-03-03''"]
  show ?thesis using a b by (auto simp: coord_examples)
qed

text \<open>
  Claim C3 as stated, for every latitude and longitude the type check lets through,
  fails at positive infinity, which is a \<open>float\<close> (the body \<open>{"latitude": 1e999, ...}\<close>
  parses to it): its text is \<open>inf\<close>, with no decimals at all. It fails again at the
  integer \<open>2^1024\<close>, too large for a double: the formatting raises \<open>OverflowError\<close> and
  there is no file name.
\<close>

theorem unbounded_latitude_breaks_format:
  "isinstance_int_float (JFloat (Inf False))
   \<and> generate_filename (JFloat (Inf False)) float_13_41 (JStr ''2023-03-01'') (JStr ''2023-03-03'') =
       Inr ''weather_latinf_lon13_41_from20230301_to20230303.json''
   \<and> coord_str (JFloat (Inf False)) = Inr ''inf''
   \<and> \<not> two_decimal_places ''inf''
   \<and> isinstance_int_float (JInt (2 ^ 1024))
   \<and> generate_filename (JInt (2 ^ 1024)) float_13_41 (JStr ''2023-03-01'') (JStr ''2023-03-03'') =
       Inl OverflowError"
  using coord_not_finite(4)
  by (simp add: generate_filename_def coord_examples coord_not_finite(1) replace_char_remove
      two_decimal_places_def)

subsection \<open>The date validator\<close>

text \<open>
  Claim C2 expects the validator to accept exactly the strings \<open>YYYY-MM-DD\<close> with a
  four-digit year and a zero-padded two-digit month and day that name a real date.
  \<open>strptime\<close> also takes a month and a day of one digit: \<open>validate_date_format\<close>
  returns \<open>True\<close> for "2023-3-1", which is not of that form.
\<close>

theorem unpadded_date_is_accepted:
  "validate_date_format (JStr ''2023-3-1'') = Inr True \<and> \<not> zero_padded_date ''2023-3-1''"
  by (simp add: re_defs date_defs zero_padded_date_def)

text \<open>The examples of the claim behave as it says, and a day may follow a blank.\<close>

lemma validate_date_format_examples:
  "validate_date_format (JStr ''2023-03-01'') = Inr True"
  "validate_date_format (JStr ''2023-15-01'') = Inr False"
  "validate_date_format (JStr ''01-03-2023'') = Inr False"
  "validate_date_format (JStr ''2023/03/01'') = Inr False"
  "validate_date_format (JStr ''2023-02-29'') = Inr False"
  "validate_date_format (JStr ''2024-02-29'') = Inr True"
  "validate_date_format (JStr ''0000-01-01'') = Inr False"
  "validate_date_format (JStr ''2023-03-32'') = Inr False"
  "validate_date_format (JStr ''2023-03-01 '') = Inr False"
  "validate_date_format (JStr ''2023-03- 1'') = Inr True"
  by (simp_all add: re_defs date_defs)

text \<open>
  The validator itself does not return for a value that is not a string: \<open>strptime\<close>
  raises \<open>TypeError\<close>, which \<open>except ValueError\<close> lets through. The handler asks
  \<open>isinstance(_, str)\<close> first.
\<close>

lemma validate_date_format_non_string:
  "\<not> isinstance_str v \<Longrightarrow> validate_date_format v = Inl TypeError"
  by (cases v) auto

lemma validated_is_str: "validate_date_format v = Inr True \<Longrightarrow> isinstance_str v"
  by (cases v) auto

lemma numeric_not_null: "isinstance_int_float v \<Longrightarrow> v \<noteq> JNull"
  by (cases v) auto

text \<open>
  A request whose coordinates are numbers and whose dates are present is answered 400
  "Invalid date format" when either date is not a string the validator accepts.
\<close>

lemma invalid_date_is_rejected:
  assumes "GCS_BUCKET_NAME env = Some bucket" and "bucket \<noteq> []"
    and "isinstance_int_float (dict_get items ''latitude'')"
    and "isinstance_int_float (dict_get items ''longitude'')"
    and "dict_get items ''start_date'' \<noteq> JNull" and "dict_get items ''end_date'' \<noteq> JNull"
    and "validate_date_format (dict_get items ''start_date'') \<noteq> Inr True \<or>
         validate_date_format (dict_get items ''end_date'') \<noteq> Inr True"
  shows "store_weather_data_endpoint env g (GetJsonReturns (JObj items)) =
           (invalid_date_format, [], g)"
proof -
  have "items \<noteq> []" using assms(3) by (cases items) (auto simp: dict_get_def)
  then show ?thesis
    using assms
    by (auto simp: store_weather_data_endpoint_def store_request_def Let_def
        missing_params_of_def numeric_not_null)
qed

text \<open>
  Without the padding the key no longer tells the dates apart: the ranges from
  11 January to 1 November and from 1 November to 11 January share one file name.
\<close>

lemma unpadded_dates_collide:
  "generate_filename float_52_52 float_13_41 (JStr ''2023-1-11'') (JStr ''2023-11-1'') =
     Inr ''weather_lat52_52_lon13_41_from2023111_to2023111.json''"
  "generate_filename float_52_52 float_13_41 (JStr ''2023-11-1'') (JStr ''2023-1-11'') =
     Inr ''weather_lat52_52_lon13_41_from2023111_to2023111.json''"
  "validate_date_format (JStr ''2023-1-11'') = Inr True"
  "validate_date_format (JStr ''2023-11-1'') = Inr True"
  by (simp_all add: generate_filename_def coord_examples replace_char_remove re_defs date_defs)

subsection \<open>The write path\<close>

lemma validated_not_null: "validate_date_format v = Inr True \<Longrightarrow> v \<noteq> JNull"
  by (cases v) auto

lemma passes_validation_store_request:
  assumes "passes_validation items"
  shows "store_request env g bucket (JObj items) =
           fetch_and_store env g bucket (dict_get items ''latitude'') (dict_get items ''longitude'')
             (dict_get items ''start_date'') (dict_get items ''end_date'')"
  using assms
  by (simp add: passes_validation_def store_request_def Let_def missing_params_of_def
      numeric_not_null validated_not_null validated_is_str)

lemma passes_validation_truthy: "passes_validation items \<Longrightarrow> truthy (JObj items)"
  by (cases items) (auto simp: passes_validation_def dict_get_def)

lemma validated_request_is_fetch_and_store:
  assumes "GCS_BUCKET_NAME env = Some bucket" and "bucket \<noteq> []" and "passes_validation items"
  shows "store_weather_data_endpoint env g (GetJsonReturns (JObj items)) =
           fetch_and_store env g bucket (dict_get items ''latitude'') (dict_get items ''longitude'')
             (dict_get items ''start_date'') (dict_get items ''end_date'')"
  using assms passes_validation_truthy [OF assms(3)] passes_validation_store_request [OF assms(3)]
  by (simp add: store_weather_data_endpoint_def)

lemma sample_request_passes: "passes_validation sample_request"
  by (simp add: passes_validation_def sample_defs re_defs date_defs)

text \<open>The provider outcomes that \<open>fetch_weather_data\<close> turns into \<open>None\<close>, and the one it does not.\<close>

lemma fetch_null_causes:
  "requests_get env la lo s e = ConnectionError \<or> requests_get env la lo s e = HTTPError st \<or>
   requests_get env la lo s e = RequestException \<or> requests_get env la lo s e = BodyNotJson \<or>
   requests_get env la lo s e = BodyJson JNull
   \<Longrightarrow> fetch_weather_data env la lo s e = Inr JNull"
  by (auto simp: fetch_weather_data_def)

lemma fetch_timeout_raises:
  "requests_get env la lo s e = Timeout \<Longrightarrow> fetch_weather_data env la lo s e = Inl UnboundLocalError"
  by (simp add: fetch_weather_data_def)

text \<open>
  Claim C4: for a request that passed every check, when \<open>fetch_weather_data\<close> returns
  \<open>None\<close> the answer is 502 "Failed to fetch weather data", the only call made is the
  fetch, \<open>upload_to_gcs\<close> is not called, and the object store is unchanged.
\<close>

theorem fetch_failure_skips_upload:
  assumes "GCS_BUCKET_NAME env = Some bucket" and "bucket \<noteq> []"
    and "passes_validation items"
    and "fetch_weather_data env (dict_get items ''latitude'') (dict_get items ''longitude'')
           (dict_get items ''start_date'') (dict_get items ''end_date'') = Inr JNull"
  shows "store_weather_data_endpoint env g (GetJsonReturns (JObj items)) =
           (upstream_fetch_failed,
            [FetchWeatherData (dict_get items ''latitude'') (dict_get items ''longitude'')
               (dict_get items ''start_date'') (dict_get items ''end_date'')], g)
       \<and> status_of upstream_fetch_failed = Some 502
       \<and> \<not> list_ex is_upload
             (fst (snd (store_weather_data_endpoint env g (GetJsonReturns (JObj items)))))"
  using validated_request_is_fetch_and_store [OF assms(1,2,3)] assms(4)
  by (simp add: fetch_and_store_def upstream_fetch_failed_def)

theorem fetch_failure_skips_upload_witness:
  "GCS_BUCKET_NAME (sample_env\<lparr>requests_get := \<lambda>la lo s e. HTTPError 400\<rparr>) = Some ''weather-bucket''
   \<and> passes_validation sample_request
   \<and> store_weather_data_endpoint (sample_env\<lparr>requests_get := \<lambda>la lo s e. HTTPError 400\<rparr>)
        sample_gcs (GetJsonReturns (JObj sample_request)) =
       (upstream_fetch_failed,
        [FetchWeatherData float_52_52 float_13_41 (JStr ''2023-03-01'') (JStr ''2023-03-03'')],
        sample_gcs)"
proof -
  let ?env = "sample_env\<lparr>requests_get := \<lambda>la lo s e. HTTPError 400\<rparr>"
  have a: "GCS_BUCKET_NAME ?env = Some ''weather-bucket''" by (simp add: sample_env_def)
  have b: "''weather-bucket'' \<noteq> []" by simp
  have c: "fetch_weather_data ?env (dict_get sample_request ''latitude'')
      (dict_get sample_request ''longitude'') (dict_get sample_request ''start_date'')
      (dict_get sample_request ''end_date'') = Inr JNull"
    by (simp add: fetch_weather_data_def)
  from fetch_failure_skips_upload [OF a b sample_request_passes c, of sample_gcs]
  show ?thesis using a sample_request_passes by (simp add: sample_request_def dict_get_def)
qed

text \<open>A timeout does not reach the 502 answer, and does not reach the upload either.\<close>

lemma timeout_is_unhandled:
  assumes "GCS_BUCKET_NAME env = Some bucket" and "bucket \<noteq> []"
    and "passes_validation items"
    and "requests_get env (dict_get items ''latitude'') (dict_get items ''longitude'')
           (dict_get items ''start_date'') (dict_get items ''end_date'') = Timeout"
  shows "store_weather_data_endpoint env g (GetJsonReturns (JObj items)) =
           (Unhandled UnboundLocalError,
            [FetchWeatherData (dict_get items ''latitude'') (dict_get items ''longitude'')
               (dict_get items ''start_date'') (dict_get items ''end_date'')], g)"
  using validated_request_is_fetch_and_store [OF assms(1,2,3)] assms(4)
  by (simp add: fetch_and_store_def fetch_weather_data_def)

text \<open>The request of the example, stored in a healthy store.\<close>

lemma sample_request_is_stored:
  "store_weather_data_endpoint sample_env sample_gcs (GetJsonReturns (JObj sample_request)) =
     (stored_successfully ''weather-bucket''
        ''weather_lat52_52_lon13_41_from20230301_to20230303.json'',
      [FetchWeatherData float_52_52 float_13_41 (JStr ''2023-03-01'') (JStr ''2023-03-03''),
       UploadToGcs ''weather-bucket'' ''weather_lat52_52_lon13_41_from20230301_to20230303.json''
         sample_text],
      sample_gcs\<lparr>objects :=
        [((''weather-bucket'', ''weather_lat52_52_lon13_41_from20230301_to20230303.json''),
          sample_text)]\<rparr>)"
proof -
  have a: "GCS_BUCKET_NAME sample_env = Some ''weather-bucket''" by (simp add: sample_env_def)
  have b: "''weather-bucket'' \<noteq> []" by simp
  have c: "generate_filename float_52_52 float_13_41 (JStr ''2023-03-01'') (JStr ''2023-03-03'') =
      Inr ''weather_lat52_52_lon13_41_from20230301_to20230303.json''"
    by (simp add: generate_filename_def coord_examples replace_char_remove)
  show ?thesis
    unfolding validated_request_is_fetch_and_store [OF a b sample_request_passes]
    by (simp add: sample_request_def dict_get_def fetch_and_store_def fetch_weather_data_def c
        upload_to_gcs_def sample_env_def sample_gcs_def sample_record_def sample_text_def)
qed


subsection \<open>Reading a stored file\<close>

lemma get_content_parsed:
  assumes "storage_client g" and "sdk_raises g (BlobExists b k) = None"
    and "sdk_raises g (DownloadAsText b k) = None"
    and "map_of (objects g) (b, k) = Some content_string"
    and "json_loads env content_string = Some v"
  shows "get_gcs_file_content env g b k = v"
  using assms by (simp add: get_gcs_file_content_def)

text \<open>
  Claim C6: with the bucket configured and a file name given, the answer is 404
  "not found or unable to retrieve/parse content" whenever \<open>get_gcs_file_content\<close>
  returns \<open>None\<close>, and 200 with the parsed content itself otherwise. An absent object,
  a denied permission and a body that is not JSON each make it return \<open>None\<close>, and the
  404 answer depends on the file name only.
\<close>

theorem missing_or_unparseable_is_404:
  assumes "GCS_BUCKET_NAME env = Some bucket" and "bucket \<noteq> []" and "file_name \<noteq> []"
  shows "(get_gcs_file_content env g bucket file_name = JNull \<longrightarrow>
            weather_file_content_endpoint env g file_name =
              (file_not_found_or_unparseable file_name, [GetGcsFileContent bucket file_name], g))
       \<and> (get_gcs_file_content env g bucket file_name \<noteq> JNull \<longrightarrow>
            weather_file_content_endpoint env g file_name =
              (Response 200 (get_gcs_file_content env g bucket file_name),
               [GetGcsFileContent bucket file_name], g))
       \<and> (map_of (objects g) (bucket, file_name) = None \<longrightarrow>
            get_gcs_file_content env g bucket file_name = JNull)
       \<and> (sdk_raises g (BlobExists bucket file_name) = Some Forbidden \<or>
          sdk_raises g (DownloadAsText bucket file_name) = Some Forbidden \<longrightarrow>
            get_gcs_file_content env g bucket file_name = JNull)
       \<and> (\<forall>content_string.
            map_of (objects g) (bucket, file_name) = Some content_string \<and>
            json_loads env content_string = None \<longrightarrow>
            get_gcs_file_content env g bucket file_name = JNull)
       \<and> status_of (file_not_found_or_unparseable file_name) = Some 404"
  using assms
  by (auto simp: weather_file_content_endpoint_def get_gcs_file_content_def
      file_not_found_or_unparseable_def split: option.splits)

theorem missing_or_unparseable_is_404_witness:
  "GCS_BUCKET_NAME sample_env = Some ''weather-bucket''
   \<and> weather_file_content_endpoint sample_env sample_gcs ''x.json'' =
       (file_not_found_or_unparseable ''x.json'',
        [GetGcsFileContent ''weather-bucket'' ''x.json''], sample_gcs)
   \<and> weather_file_content_endpoint sample_env
        (sample_gcs\<lparr>objects := [((''weather-bucket'', ''x.json''), ''not json'')]\<rparr>) ''x.json'' =
       (file_not_found_or_unparseable ''x.json'',
        [GetGcsFileContent ''weather-bucket'' ''x.json''],
        sample_gcs\<lparr>objects := [((''weather-bucket'', ''x.json''), ''not json'')]\<rparr>)
   \<and> weather_file_content_endpoint sample_env
        (sample_gcs\<lparr>objects := [((''weather-bucket'', ''x.json''),
                                   sample_text)]\<rparr>) ''x.json'' =
       (Response 200 sample_record,
        [GetGcsFileContent ''weather-bucket'' ''x.json''],
        sample_gcs\<lparr>objects := [((''weather-bucket'', ''x.json''),
                                   sample_text)]\<rparr>)"
proof -
  let ?bad = "sample_gcs\<lparr>objects := [((''weather-bucket'', ''x.json''), ''not json'')]\<rparr>"
  let ?good = "sample_gcs\<lparr>objects := [((''weather-bucket'', ''x.json''),
                                   sample_text)]\<rparr>"
  have a: "GCS_BUCKET_NAME sample_env = Some ''weather-bucket''" by (simp add: sample_env_def)
  have b: "''weather-bucket'' \<noteq> []" and c: "''x.json'' \<noteq> []" by simp_all
  have absent: "get_gcs_file_content sample_env sample_gcs ''weather-bucket'' ''x.json'' = JNull"
    by (simp add: get_gcs_file_content_def sample_gcs_def)
  have bad: "get_gcs_file_content sample_env ?bad ''weather-bucket'' ''x.json'' = JNull"
    by (simp add: get_gcs_file_content_def sample_gcs_def sample_env_def sample_text_def)
  have good: "get_gcs_file_content sample_env ?good ''weather-bucket'' ''x.json'' = sample_record"
    by (simp add: get_gcs_file_content_def sample_gcs_def sample_env_def sample_text_def)
  have "sample_record \<noteq> JNull" by (simp add: sample_record_def)
  then show ?thesis
    using a absent bad good
      missing_or_unparseable_is_404 [OF a b c, of sample_gcs]
      missing_or_unparseable_is_404 [OF a b c, of ?bad]
      missing_or_unparseable_is_404 [OF a b c, of ?good]
    by simp
qed

subsection \<open>Listing the stored files\<close>

lemma list_without_match_is_empty:
  assumes "storage_client g" and "sdk_raises g (ListBlobs bucket (Some p)) = None"
    and "list_all (\<lambda>((b, name), content_string). b = bucket \<longrightarrow> take (length p) name \<noteq> p)
           (objects g)"
  shows "list_gcs_files g bucket (Some p) = Some []"
  using assms
  by (auto simp: list_gcs_files_def list_all_iff)

text \<open>
  Claim C7: with the bucket configured, the answer is 500 "Failed to retrieve file
  list" exactly when \<open>list_gcs_files\<close> returns \<open>None\<close>; an empty list is answered 200
  with no files and the bucket name, and a healthy store without an object of the
  prefix yields the empty list, not \<open>None\<close>.
\<close>

theorem empty_listing_is_success:
  assumes "GCS_BUCKET_NAME env = Some bucket" and "bucket \<noteq> []"
  shows "(fst (list_weather_files_endpoint env g) = storage_list_failed \<longleftrightarrow>
            list_gcs_files g bucket (Some ''weather_'') = None)
       \<and> (list_gcs_files g bucket (Some ''weather_'') = Some [] \<longrightarrow>
            list_weather_files_endpoint env g =
              (Response 200 (JObj [(''files'', JArr []), (''bucket'', JStr bucket)]),
               [ListGcsFiles bucket (Some ''weather_'')], g))
       \<and> (storage_client g \<and> sdk_raises g (ListBlobs bucket (Some ''weather_'')) = None \<and>
          list_all (\<lambda>((b, name), content_string).
                      b = bucket \<longrightarrow> take (length ''weather_'') name \<noteq> ''weather_'')
            (objects g) \<longrightarrow>
            list_gcs_files g bucket (Some ''weather_'') = Some [])
       \<and> status_of storage_list_failed = Some 500"
proof -
  have "fst (list_weather_files_endpoint env g) = storage_list_failed \<longleftrightarrow>
      list_gcs_files g bucket (Some ''weather_'') = None"
    using assms
    by (auto simp: list_weather_files_endpoint_def storage_list_failed_def error_body_def
        split: option.splits)
  moreover have "list_gcs_files g bucket (Some ''weather_'') = Some [] \<longrightarrow>
      list_weather_files_endpoint env g =
        (Response 200 (JObj [(''files'', JArr []), (''bucket'', JStr bucket)]),
         [ListGcsFiles bucket (Some ''weather_'')], g)"
    using assms by (simp add: list_weather_files_endpoint_def)
  moreover have "status_of storage_list_failed = Some 500"
    by (simp add: storage_list_failed_def)
  ultimately show ?thesis
    using list_without_match_is_empty [of g bucket "''weather_''"] by blast
qed

theorem empty_listing_is_success_witness:
  "GCS_BUCKET_NAME sample_env = Some ''weather-bucket''
   \<and> list_gcs_files sample_gcs ''weather-bucket'' (Some ''weather_'') = Some []
   \<and> list_weather_files_endpoint sample_env sample_gcs =
       (Response 200 (JObj [(''files'', JArr []), (''bucket'', JStr ''weather-bucket'')]),
        [ListGcsFiles ''weather-bucket'' (Some ''weather_'')], sample_gcs)
   \<and> list_gcs_files (sample_gcs\<lparr>sdk_raises := \<lambda>op. Some NotFound\<rparr>) ''weather-bucket''
        (Some ''weather_'') = None
   \<and> fst (list_weather_files_endpoint sample_env (sample_gcs\<lparr>sdk_raises := \<lambda>op. Some NotFound\<rparr>))
       = storage_list_failed"
proof -
  let ?down = "sample_gcs\<lparr>sdk_raises := \<lambda>op. Some NotFound\<rparr>"
  have a: "GCS_BUCKET_NAME sample_env = Some ''weather-bucket''" by (simp add: sample_env_def)
  have b: "''weather-bucket'' \<noteq> []" by simp
  have empty: "list_gcs_files sample_gcs ''weather-bucket'' (Some ''weather_'') = Some []"
    by (simp add: list_gcs_files_def sample_gcs_def)
  have down: "list_gcs_files ?down ''weather-bucket'' (Some ''weather_'') = None"
    by (simp add: list_gcs_files_def sample_gcs_def)
  show ?thesis
    using a empty down
      empty_listing_is_success [OF a b, of sample_gcs]
      empty_listing_is_success [OF a b, of ?down]
    by simp
qed

lemma listing_returns_matching_names:
  "list_gcs_files
     (sample_gcs\<lparr>objects := [((''weather-bucket'', ''weather_a.json''), ''1''),
                              ((''weather-bucket'', ''notes.txt''), ''2''),
                              ((''other-bucket'', ''weather_b.json''), ''3'')]\<rparr>)
     ''weather-bucket'' (Some ''weather_'') = Some [''weather_a.json'']"
  by (simp add: list_gcs_files_def sample_gcs_def)

subsection \<open>Writing, then reading\<close>

text \<open>
  Claim C8: let \<open>w\<close> be a value the JSON library can represent, that is, one that
  \<open>json.loads\<close> reads back from what \<open>json.dumps\<close> writes for it. When the client
  exists and the SDK raises nothing on the object \<open>key\<close>, uploading the serialisation of \<open>w\<close>
  under \<open>key\<close> succeeds, and \<open>get_gcs_file_content\<close> on \<open>key\<close> then returns \<open>w\<close>.
\<close>

theorem upload_then_read_round_trip:
  assumes "storage_client g"
    and "sdk_raises g (UploadFromString bucket key) = None"
    and "sdk_raises g (BlobExists bucket key) = None"
    and "sdk_raises g (DownloadAsText bucket key) = None"
    and "json_loads env (json_dumps env w) = Some w"
  shows "fst (upload_to_gcs g bucket key (json_dumps env w))
       \<and> get_gcs_file_content env (snd (upload_to_gcs g bucket key (json_dumps env w)))
           bucket key = w"
  using assms
  by (simp add: upload_to_gcs_def get_gcs_file_content_def update_conv')

theorem upload_then_read_round_trip_witness:
  "storage_client sample_gcs
   \<and> json_loads sample_env (json_dumps sample_env sample_record) = Some sample_record
   \<and> fst (upload_to_gcs sample_gcs ''weather-bucket'' ''k.json'' (json_dumps sample_env sample_record))
   \<and> get_gcs_file_content sample_env
        (snd (upload_to_gcs sample_gcs ''weather-bucket'' ''k.json''
                (json_dumps sample_env sample_record)))
        ''weather-bucket'' ''k.json'' = sample_record"
proof -
  have a: "storage_client sample_gcs" by (simp add: sample_gcs_def)
  have b: "sdk_raises sample_gcs op = None" for op by (simp add: sample_gcs_def)
  have c: "json_loads sample_env (json_dumps sample_env sample_record) = Some sample_record"
    by (simp add: sample_env_def)
  from upload_then_read_round_trip [OF a b b b c, of "''weather-bucket''" "''k.json''"]
  show ?thesis using a c by simp
qed

text \<open>
  The two endpoints in sequence. When a request that passed the checks is answered 201,
  nothing fails on reading and the JSON library represents the record the provider
  returned, \<open>GET /weather-file-content/\<close> with the file name of the answer returns that
  record.
\<close>

lemma generate_filename_nonempty: "generate_filename la lo s e = Inr file_name \<Longrightarrow> file_name \<noteq> []"
  by (auto simp: generate_filename_def split: sum.splits)

lemma stored_then_read_back:
  assumes "GCS_BUCKET_NAME env = Some bucket" and "bucket \<noteq> []"
    and "passes_validation items"
    and "fetch_weather_data env (dict_get items ''latitude'') (dict_get items ''longitude'')
           (dict_get items ''start_date'') (dict_get items ''end_date'') = Inr w"
    and "w \<noteq> JNull"
    and "store_weather_data_endpoint env g (GetJsonReturns (JObj items)) =
           (stored_successfully bucket file_name, calls, g')"
    and "sdk_raises g (BlobExists bucket file_name) = None"
    and "sdk_raises g (DownloadAsText bucket file_name) = None"
    and "json_loads env (json_dumps env w) = Some w"
  shows "weather_file_content_endpoint env g' file_name =
           (Response 200 w, [GetGcsFileContent bucket file_name], g')"
proof -
  let ?la = "dict_get items ''latitude''" and ?lo = "dict_get items ''longitude''"
  let ?s = "dict_get items ''start_date''" and ?e = "dict_get items ''end_date''"
  have run: "fetch_and_store env g bucket ?la ?lo ?s ?e =
      (stored_successfully bucket file_name, calls, g')"
    using validated_request_is_fetch_and_store [OF assms(1,2,3)] assms(6) by simp
  obtain name where name: "generate_filename ?la ?lo ?s ?e = Inr name"
    using run assms(4,5)
    by (cases "generate_filename ?la ?lo ?s ?e")
       (auto simp: fetch_and_store_def stored_successfully_def)
  have up: "upload_to_gcs g bucket name (json_dumps env w) = (True, g')" and same: "name = file_name"
    using run assms(4,5) name
    by (auto simp: fetch_and_store_def stored_successfully_def storage_write_failed_def
        error_body_def split: prod.splits if_splits)
  have client: "storage_client g" and g': "g' = g\<lparr>objects :=
      AList.update (bucket, file_name) (json_dumps env w) (objects g)\<rparr>"
    using up same
    by (auto simp: upload_to_gcs_def split: if_splits option.splits gcs_exc.splits)
  have "get_gcs_file_content env g' bucket file_name = w"
    using client assms(7,8,9) by (simp add: g' get_gcs_file_content_def update_conv')
  moreover have "file_name \<noteq> []"
    using name same by (simp add: generate_filename_nonempty)
  ultimately show ?thesis
    using assms(1,2,5) by (simp add: weather_file_content_endpoint_def)
qed

text \<open>The request of the example, stored and read back.\<close>

lemma stored_record_reads_back:
  "weather_file_content_endpoint sample_env
     (snd (snd (store_weather_data_endpoint sample_env sample_gcs
                  (GetJsonReturns (JObj sample_request)))))
     ''weather_lat52_52_lon13_41_from20230301_to20230303.json''
   = (Response 200 sample_record,
      [GetGcsFileContent ''weather-bucket''
         ''weather_lat52_52_lon13_41_from20230301_to20230303.json''],
      snd (snd (store_weather_data_endpoint sample_env sample_gcs
                  (GetJsonReturns (JObj sample_request)))))"
  unfolding sample_request_is_stored
  by (simp add: weather_file_content_endpoint_def get_gcs_file_content_def sample_env_def
      sample_gcs_def sample_record_def sample_text_def)

subsection \<open>Boolean coordinates\<close>





text \<open>The same for a longitude that is \<open>false\<close>.\<close>

lemma boolean_longitude_key:
  "generate_filename float_52_52 (JBool False) (JStr ''2023-03-01'') (JStr ''2023-03-03'') =
     Inr ''weather_lat52_52_lon0_00_from20230301_to20230303.json''"
  by (simp add: generate_filename_def coord_examples coord_bool replace_char_remove)


subsection \<open>Zero-padded dates\<close>

text \<open>
  One half of what claim C2 says does hold: every string of the zero-padded form
  \<open>YYYY-MM-DD\<close> that names a real date is accepted.
\<close>

lemma is_digit_cases:
  "is_digit c \<longleftrightarrow> c = CHR ''0'' \<or> c = CHR ''1'' \<or> c = CHR ''2'' \<or> c = CHR ''3'' \<or> c = CHR ''4'' \<or>
     c = CHR ''5'' \<or> c = CHR ''6'' \<or> c = CHR ''7'' \<or> c = CHR ''8'' \<or> c = CHR ''9''"
  by (simp add: is_digit_def)

lemma re_digit_match: "is_digit c \<Longrightarrow> re_digit (c # r) = [([c], r)]"
  by (simp add: re_digit_def one_of_def is_digit_def)

lemma re_Y_match:
  assumes "is_digit a" "is_digit b" "is_digit c" "is_digit d"
  shows "re_Y (a # b # c # d # r) = [([a, b, c, d], r)]"
  using assms by (simp add: re_Y_def then_m_def re_digit_match)

lemma hyphen_not_digit: "is_digit c \<Longrightarrow> c \<noteq> CHR ''-''"
  by (auto simp: is_digit_def)

lemma blank_not_digit: "is_digit c \<Longrightarrow> c \<noteq> CHR '' ''"
  by (auto simp: is_digit_def)

lemma re_m_padded:
  assumes "is_digit a" "is_digit b"
    and "1 \<le> int_of_group [a, b]" "int_of_group [a, b] \<le> 12"
  shows "re_m (a # b # r) = ([a, b], r) # (if a = CHR ''0'' then [] else [([a], b # r)])"
proof -
  consider "a = CHR ''0''" "b \<noteq> CHR ''0''"
    | "a = CHR ''1''" "b = CHR ''0'' \<or> b = CHR ''1'' \<or> b = CHR ''2''"
    using assms unfolding is_digit_cases
    by (auto simp: int_of_group_def digit_value_def)
  then show ?thesis
  proof cases
    case 1
    then show ?thesis using assms(2) unfolding is_digit_cases
      by (auto simp: re_m_def alt_m_def then_m_def one_of_def)
  next
    case 2
    then show ?thesis
      by (auto simp: re_m_def alt_m_def then_m_def one_of_def)
  qed
qed

lemma re_d_padded:
  assumes "is_digit a" "is_digit b"
    and "1 \<le> int_of_group [a, b]" "int_of_group [a, b] \<le> 31"
  shows "re_d (a # b # r) = ([a, b], r) # (if a = CHR ''0'' then [] else [([a], b # r)])"
proof -
  consider "a = CHR ''0''" "b \<noteq> CHR ''0''"
    | "a = CHR ''1'' \<or> a = CHR ''2''"
    | "a = CHR ''3''" "b = CHR ''0'' \<or> b = CHR ''1''"
    using assms unfolding is_digit_cases
    by (auto simp: int_of_group_def digit_value_def)
  then show ?thesis
  proof cases
    case 1
    then show ?thesis using assms(2) unfolding is_digit_cases
      by (auto simp: re_d_def alt_m_def then_m_def one_of_def re_digit_def)
  next
    case 2
    then show ?thesis using assms(2) unfolding is_digit_cases
      by (auto simp: re_d_def alt_m_def then_m_def one_of_def re_digit_def)
  next
    case 3
    then show ?thesis
      by (auto simp: re_d_def alt_m_def then_m_def one_of_def re_digit_def)
  qed
qed

lemma digit_value_le: "is_digit c \<Longrightarrow> digit_value c \<le> 9"
  unfolding is_digit_cases by (auto simp: digit_value_def)

lemma days_in_month_le: "days_in_month y m \<le> 31"
  by (simp add: days_in_month_def)

lemma length_10:
  assumes "length s = 10"
  obtains a b c d e f g h i j where "s = [a, b, c, d, e, f, g, h, i, j]"
proof -
  from assms obtain a s1 where 1: "s = a # s1" "length s1 = 9" by (cases s) auto
  then obtain b s2 where 2: "s1 = b # s2" "length s2 = 8" by (cases s1) auto
  then obtain c s3 where 3: "s2 = c # s3" "length s3 = 7" by (cases s2) auto
  then obtain d s4 where 4: "s3 = d # s4" "length s4 = 6" by (cases s3) auto
  then obtain e s5 where 5: "s4 = e # s5" "length s5 = 5" by (cases s4) auto
  then obtain f s6 where 6: "s5 = f # s6" "length s6 = 4" by (cases s5) auto
  then obtain g s7 where 7: "s6 = g # s7" "length s7 = 3" by (cases s6) auto
  then obtain h s8 where 8: "s7 = h # s8" "length s8 = 2" by (cases s7) auto
  then obtain i s9 where 9: "s8 = i # s9" "length s9 = 1" by (cases s8) auto
  then obtain j where 10: "s9 = [j]" by (cases s9) auto
  show ?thesis using that 1 2 3 4 5 6 7 8 9 10 by simp
qed

lemma zero_padded_date_is_accepted:
  assumes "zero_padded_date s"
  shows "validate_date_format (JStr s) = Inr True"
proof -
  have "length s = 10" using assms by (simp add: zero_padded_date_def)
  then obtain y1 y2 y3 y4 h1 m1 m2 h2 d1 d2 where s: "s = [y1, y2, y3, y4, h1, m1, m2, h2, d1, d2]"
    by (rule length_10)
  have dig: "is_digit y1" "is_digit y2" "is_digit y3" "is_digit y4"
      "is_digit m1" "is_digit m2" "is_digit d1" "is_digit d2"
    and hy: "h1 = CHR ''-''" "h2 = CHR ''-''"
    and yr: "1 \<le> int_of_group [y1, y2, y3, y4]"
    and mo: "1 \<le> int_of_group [m1, m2]" "int_of_group [m1, m2] \<le> 12"
    and da: "1 \<le> int_of_group [d1, d2]"
      "int_of_group [d1, d2] \<le> days_in_month (int_of_group [y1, y2, y3, y4]) (int_of_group [m1, m2])"
    using assms by (simp_all add: zero_padded_date_def s)
  have da31: "int_of_group [d1, d2] \<le> 31"
    using da(2) days_in_month_le le_trans by blast
  have m2h: "m2 \<noteq> CHR ''-''" and d2h: "d2 \<noteq> CHR ''-''"
    using dig by (simp_all add: hyphen_not_digit)
  have found: "format_regex_match s =
      Some (([y1, y2, y3, y4], [m1, m2], [d1, d2]), [])"
    unfolding format_regex_match_def s hy
    by (simp add: re_Y_match dig re_m_padded [OF dig(5,6) mo] re_d_padded [OF dig(7,8) da(1) da31]
        one_of_def m2h d2h)
  have "int_of_group [y1, y2, y3, y4] \<le> 9999"
    using digit_value_le [OF dig(1)] digit_value_le [OF dig(2)] digit_value_le [OF dig(3)]
      digit_value_le [OF dig(4)] blank_not_digit [OF dig(1)]
    by (simp add: int_of_group_def)
  then show ?thesis
    using yr mo da by (simp add: strptime_Ymd_def found)
qed


end
